theory Spec2Isabelle
  imports Main "HOL-Library.Char_ord" "HOL-Library.List_Lexorder"
begin

section \<open>Common vocabulary: text, exceptions, log records\<close>

text \<open>
  Python \<open>str\<close> values are modelled as \<^typ>\<open>string\<close>, compared character by
  character as Python compares them. The model covers ASCII text: \<open>py_isspace\<close> is
  \<open>str.isspace\<close> on ASCII and \<open>upper\<close> is \<open>str.upper\<close> on ASCII.
\<close>

definition py_isspace :: "char \<Rightarrow> bool" where
  "py_isspace c = (of_char c \<in> {9, 10, 11, 12, 13, 28, 29, 30, 31, 32 :: nat})"

definition strip :: "string \<Rightarrow> string" where
  "strip s = rev (dropWhile py_isspace (rev (dropWhile py_isspace s)))"

definition upper_char :: "char \<Rightarrow> char" where
  "upper_char c =
     (if 97 \<le> (of_char c :: nat) \<and> (of_char c :: nat) \<le> 122
      then char_of (of_char c - 32 :: nat) else c)"

definition upper :: "string \<Rightarrow> string" where
  "upper s = map upper_char s"

text \<open>\<open>sep.join(parts)\<close>.\<close>

fun join :: "string \<Rightarrow> string list \<Rightarrow> string" where
  "join sep [] = []"
| "join sep [x] = x"
| "join sep (x # y # ys) = x @ sep @ join sep (y # ys)"

text \<open>
  Exceptions are values. Every class listed derives from Python's \<open>Exception\<close>, so an
  \<open>except Exception\<close> clause catches each of them; \<open>except ValueError\<close> catches
  \<open>ValueError\<close> and its subclass \<open>UnicodeDecodeError\<close>. Signals that are not an
  \<open>Exception\<close> (the cancellation of the running task, a keyboard interrupt) are not
  failures of an operation and are not modelled.
\<close>

datatype exc_class =
  ValueError | UnicodeDecodeError | OSError | TimeoutError | ClientError
  | AttributeError | TypeError | RuntimeError | KeyError

datatype py_exception = Exc exc_class string

fun is_ValueError :: "py_exception \<Rightarrow> bool" where
  "is_ValueError (Exc c msg) = (c = ValueError \<or> c = UnicodeDecodeError)"

fun str_exc :: "py_exception \<Rightarrow> string" where
  "str_exc (Exc c msg) = msg"

datatype log_level = DEBUG | INFO | WARNING | ERROR

text \<open>One constructor per logging call of the repository, carrying the interpolated values.\<close>

datatype log_message =
    KnowledgeDirNotFound
  | LoadedKnowledge string nat
  | FailedToRead string py_exception
  | NoKnowledgeDocuments
  | LoadedKnowledgeDocs nat nat
  | HookUrlNotSet
  | CallSummarySent nat
  | HookReturned nat string
  | FailedToSendToHook py_exception
  | CallConnected
  | CallDisconnected
  | FailedToSendCallSummary py_exception
  | KnowledgeLoadedAtStartup nat
  | WebhookReceived string
  | AutoAcceptedCall string
  | FailedToStartBot py_exception
  | InvalidWebhook py_exception
  | WebhookProcessingError py_exception

type_synonym log_record = "log_level \<times> log_message"

section \<open>Knowledge loader (knowledge.py)\<close>

text \<open>
  The knowledge directory as \<open>load_knowledge\<close> sees it: \<open>None\<close> when
  \<open>KNOWLEDGE_DIR.exists()\<close> is false, otherwise its entries. An entry is a file name and
  what \<open>read_text(encoding="utf-8")\<close> does on it: the decoded text, or the exception
  raised (an unreadable file, a directory named \<open>x.md\<close>, bytes that are not UTF-8).
  The paths that \<open>glob\<close> yields differ in their last component only, so \<open>sorted\<close>
  orders them by file name, as strings (POSIX paths).
\<close>

record dir_entry =
  name :: string
  read_text :: "py_exception + string"

type_synonym knowledge_dir = "dir_entry list option"

text \<open>\<open>glob("*.md")\<close> keeps the names that end in \<open>.md\<close>.\<close>

definition ends_with :: "string \<Rightarrow> string \<Rightarrow> bool" where
  "ends_with suf s = (length suf \<le> length s \<and> drop (length s - length suf) s = suf)"

definition glob_md :: "dir_entry list \<Rightarrow> dir_entry list" where
  "glob_md entries = filter (\<lambda>e. ends_with ''.md'' (name e)) entries"

text \<open>
  \<open>Path.stem\<close>: the name up to its last dot, when that dot is neither the first nor
  the last character; the whole name otherwise.
\<close>

fun rfind_dot :: "string \<Rightarrow> nat option" where
  "rfind_dot [] = None"
| "rfind_dot (c # cs) =
     (case rfind_dot cs of
        Some i \<Rightarrow> Some (Suc i)
      | None \<Rightarrow> if c = CHR ''.'' then Some 0 else None)"

definition stem :: "string \<Rightarrow> string" where
  "stem nm =
     (case rfind_dot nm of
        Some i \<Rightarrow> if 0 < i \<and> i < length nm - 1 then take i nm else nm
      | None \<Rightarrow> nm)"

text \<open>The f-string \<open>f"--- {md_file.stem.upper()} ---\n{content}"\<close>.\<close>

definition document :: "string \<Rightarrow> string \<Rightarrow> string" where
  "document nm content = ''--- '' @ upper (stem nm) @ '' ---'' @ [CHR 0x0A] @ content"

text \<open>
  The body of the \<open>try\<close> block for one file: it raises what \<open>read_text\<close> raises,
  and otherwise returns the grown \<open>documents\<close> list with the log records written.
\<close>

definition try_file ::
  "dir_entry \<Rightarrow> string list \<Rightarrow> py_exception + (string list \<times> log_record list)" where
  "try_file md_file documents =
     (case read_text md_file of
        Inl e \<Rightarrow> Inl e
      | Inr text \<Rightarrow>
          (let content = strip text in
           if content \<noteq> []
           then Inr (documents @ [document (name md_file) content],
                     [(DEBUG, LoadedKnowledge (name md_file) (length content))])
           else Inr (documents, [])))"

text \<open>
  The \<open>for\<close> loop with its \<open>except Exception\<close> handler: a failing file is logged
  and the loop goes on with \<open>documents\<close> as it was.
\<close>

fun load_loop ::
  "dir_entry list \<Rightarrow> string list \<Rightarrow> log_record list \<Rightarrow> string list \<times> log_record list" where
  "load_loop [] documents lg = (documents, lg)"
| "load_loop (md_file # rest) documents lg =
     (case try_file md_file documents of
        Inr (documents', out) \<Rightarrow> load_loop rest documents' (lg @ out)
      | Inl e \<Rightarrow> load_loop rest documents (lg @ [(ERROR, FailedToRead (name md_file) e)]))"

text \<open>
  \<open>load_knowledge\<close>: the result is \<open>Inr\<close> of the returned string or \<open>Inl\<close> of an
  exception that leaves the function, together with the log records written.
\<close>

definition load_knowledge :: "knowledge_dir \<Rightarrow> (py_exception + string) \<times> log_record list" where
  "load_knowledge kdir =
     (case kdir of
        None \<Rightarrow> (Inr [], [(WARNING, KnowledgeDirNotFound)])
      | Some entries \<Rightarrow>
          (let (documents, lg) = load_loop (sort_key name (glob_md entries)) [] [] in
           if documents = []
           then (Inr [], lg @ [(WARNING, NoKnowledgeDocuments)])
           else (let combined = join [CHR 0x0A, CHR 0x0A] documents in
                 (Inr combined,
                  lg @ [(INFO, LoadedKnowledgeDocs (length documents) (length combined))]))))"

section \<open>Call-summary notifier (hooks.py)\<close>

text \<open>
  A Python value that is \<open>None\<close> or a \<open>str\<close>. The call metadata is a dict from field
  names to such values; \<open>dict_get\<close> is \<open>dict.get(key)\<close>, \<open>None\<close> for a missing key.
\<close>

datatype py_value = PyNone | PyStr string

type_synonym call_metadata = "string \<rightharpoonup> py_value"

definition dict_get :: "call_metadata \<Rightarrow> string \<Rightarrow> py_value" where
  "dict_get d k = (case d k of None \<Rightarrow> PyNone | Some v \<Rightarrow> v)"

text \<open>
  One call of \<open>session.post(url, json=payload, timeout=ClientTimeout(total=...))\<close>, and
  what the network answers: the call raises, or a response arrives with a status and with
  what \<open>resp.text()\<close> does when it is awaited.
\<close>

record http_request =
  url :: string
  json :: "(string \<times> py_value) list"
  timeout_total :: nat

datatype post_outcome =
    PostRaises py_exception
  | Responded nat "py_exception + string"

type_synonym network = "http_request \<Rightarrow> post_outcome"

text \<open>The world outside the process: the HTTP requests sent so far and the log written so far.\<close>

record world =
  requests :: "http_request list"
  log :: "log_record list"

definition write_log :: "log_level \<Rightarrow> log_message \<Rightarrow> world \<Rightarrow> world" where
  "write_log lvl msg w = w\<lparr>log := log w @ [(lvl, msg)]\<rparr>"

text \<open>
  The body of the \<open>try\<close> block of \<open>send_call_summary\<close>. Creating the client session
  and the timeout object sends nothing; the request is sent by \<open>session.post\<close>, and the
  exchange then goes as the network decides.
\<close>

definition post_payload ::
  "string \<Rightarrow> network \<Rightarrow> (string \<times> py_value) list \<Rightarrow> world \<Rightarrow> (py_exception + unit) \<times> world" where
  "post_payload hook_url net payload w =
     (let request = \<lparr>url = hook_url, json = payload, timeout_total = 10\<rparr>;
          w1 = w\<lparr>requests := requests w @ [request]\<rparr>
      in case net request of
           PostRaises e \<Rightarrow> (Inl e, w1)
         | Responded status text \<Rightarrow>
             if status = 200 then (Inr (), write_log INFO (CallSummarySent status) w1)
             else (case text of
                     Inl e \<Rightarrow> (Inl e, w1)
                   | Inr body \<Rightarrow> (Inr (), write_log WARNING (HookReturned status body) w1)))"

text \<open>
  \<open>send_call_summary\<close>. Its first argument is the module constant \<open>N8N_CALL_HOOK_URL\<close>
  (the environment variable, \<open>""\<close> when unset), its second the network.
\<close>

definition send_call_summary ::
  "string \<Rightarrow> network \<Rightarrow> call_metadata \<Rightarrow> world \<Rightarrow> (py_exception + unit) \<times> world" where
  "send_call_summary N8N_CALL_HOOK_URL net call_metadata w =
     (if N8N_CALL_HOOK_URL = [] then (Inr (), write_log DEBUG HookUrlNotSet w)
      else
        (let payload = [(''event'', PyStr ''call_ended''),
                        (''connected_at'', dict_get call_metadata ''connected_at''),
                        (''disconnected_at'', dict_get call_metadata ''disconnected_at'')]
         in case post_payload N8N_CALL_HOOK_URL net payload w of
              (Inr u, w') \<Rightarrow> (Inr (), w')
            | (Inl e, w') \<Rightarrow> (Inr (), write_log ERROR (FailedToSendToHook e) w')))"

section \<open>Bot session assembler (bot.py)\<close>

text \<open>
  The template \<open>AGENT_RULES\<close>: the text before its only field, then the field and the
  line break that ends the template.
\<close>

definition RULES_PREAMBLE :: string where
  \<open>RULES_PREAMBLE =
     ''You are an AI voice assistant for Institute of Financial Studies (IFS), Jaipur.\<newline>''
   @ ''\<newline>''
   @ ''IMPORTANT RULES:\<newline>''
   @ ''- You are answering a live phone call. Keep responses brief (1-3 sentences).\<newline>''
   @ ''- Speak naturally like a helpful receptionist, not like a chatbot.\<newline>''
   @ ''- Respond in the SAME LANGUAGE the caller speaks (Hindi or English).\<newline>''
   @ ''- Only answer from the knowledge provided below. Never make up information.\<newline>''
   @ ''- If you don'' @ [CHR 0x27] @ ''t know something, say: "I would be happy to connect you with our admissions team for more details. You can also reach us at our office number."\<newline>''
   @ ''- Do not use special characters, emojis, or markdown in your responses (output is converted to speech).\<newline>''
   @ ''- Be warm, professional, and helpful.\<newline>''
   @ ''- If the caller wants to speak to a human, say: "I will let our team know. Someone will call you back shortly."\<newline>''
   @ ''\<newline>''
   @ ''YOUR KNOWLEDGE:\<newline>''\<close>

definition AGENT_RULES :: string where
  "AGENT_RULES = RULES_PREAMBLE @ ''{knowledge}'' @ ''\<newline>''"

text \<open>
  \<open>template.format(knowledge=value)\<close>: \<open>{{\<close> and \<open>}}\<close> stand for one brace, the field
  \<open>{knowledge}\<close> is replaced by the value (which is not scanned again), a lone \<open>}\<close>
  raises \<open>ValueError\<close>. Any other field is reported as the \<open>KeyError\<close> that a field
  with another name raises.
\<close>

definition emit :: "string \<Rightarrow> py_exception + string \<Rightarrow> py_exception + string" where
  "emit s r = (case r of Inl e \<Rightarrow> Inl e | Inr t \<Rightarrow> Inr (s @ t))"

fun format_knowledge :: "string \<Rightarrow> string \<Rightarrow> py_exception + string" where
  "format_knowledge [] v = Inr []"
| "format_knowledge (c # cs) v =
     (if c = CHR ''{'' then
        (if take 1 cs = ''{'' then emit ''{'' (format_knowledge (tl cs) v)
         else if take 10 cs = ''knowledge}'' then emit v (format_knowledge (drop 10 cs) v)
         else Inl (Exc KeyError (takeWhile (\<lambda>x. x \<noteq> CHR ''}'') cs)))
      else if c = CHR ''}'' then
        (if take 1 cs = ''}'' then emit ''}'' (format_knowledge (tl cs) v)
         else Inl (Exc ValueError ''Single } encountered in format string''))
      else emit [c] (format_knowledge cs v))"

text \<open>The framework objects \<open>run_bot\<close> builds, with the arguments it passes.\<close>

record connection =
  pc_id :: string

record transport_params =
  audio_in_enabled :: bool
  audio_out_enabled :: bool
  audio_out_10ms_chunks :: nat

record transport =
  webrtc_connection :: connection
  params :: transport_params

record llm_service =
  api_key :: "string option"
  voice_id :: string
  system_instruction :: string

record message =
  role :: string
  content :: string

type_synonym llm_context = "message list"

datatype vad_analyzer = SileroVADAnalyzer

datatype stage =
    TransportInput transport
  | UserAggregator llm_context vad_analyzer
  | LLM llm_service
  | TransportOutput transport
  | AssistantAggregator llm_context

datatype frame = LLMRunFrame

record pipeline_task =
  pipeline :: "stage list"
  enable_metrics :: bool
  enable_usage_metrics :: bool
  queued_frames :: "frame list"
  cancelled :: bool

text \<open>\<open>LLMContextAggregatorPair(context, user_params=...)\<close>: both aggregators share the context.\<close>

definition LLMContextAggregatorPair :: "llm_context \<Rightarrow> vad_analyzer \<Rightarrow> stage \<times> stage" where
  "LLMContextAggregatorPair context vad = (UserAggregator context vad, AssistantAggregator context)"

text \<open>
  What \<open>run_bot\<close> holds when it reaches \<open>runner.run(task)\<close>: the framework objects and
  the \<open>call_metadata\<close> dict its two event handlers close over.
\<close>

record bot_session =
  session_transport :: transport
  session_llm :: llm_service
  session_task :: pipeline_task
  session_metadata :: call_metadata

text \<open>
  \<open>run_bot\<close> up to \<open>runner.run(task)\<close>. \<open>GOOGLE_API_KEY\<close> is the environment variable;
  \<open>knowledge_context\<close> is \<open>None\<close> when the argument is left out, and then takes its
  default \<open>""\<close>. \<open>x or y\<close> on a string is \<open>y\<close> when \<open>x\<close> is empty.
\<close>

definition knowledge_or_fallback :: "string \<Rightarrow> string" where
  "knowledge_or_fallback k = (if k = [] then ''No knowledge documents loaded yet.'' else k)"

definition run_bot ::
  "string option \<Rightarrow> connection \<Rightarrow> string option \<Rightarrow> py_exception + bot_session" where
  "run_bot GOOGLE_API_KEY conn knowledge_arg =
     (let knowledge_context = (case knowledge_arg of None \<Rightarrow> [] | Some k \<Rightarrow> k) in
      case format_knowledge AGENT_RULES (knowledge_or_fallback knowledge_context) of
        Inl e \<Rightarrow> Inl e
      | Inr instruction \<Rightarrow>
          (let transport = \<lparr>webrtc_connection = conn,
                            params = \<lparr>audio_in_enabled = True, audio_out_enabled = True,
                                      audio_out_10ms_chunks = 2\<rparr>\<rparr>;
               llm = \<lparr>api_key = GOOGLE_API_KEY, voice_id = ''Kore'',
                      system_instruction = instruction\<rparr>;
               context = [\<lparr>role = ''user'',
                           content = ''A customer is calling IFS. Greet them warmly and ask how you can help.''\<rparr>];
               (user_aggregator, assistant_aggregator) = LLMContextAggregatorPair context SileroVADAnalyzer;
               pipeline = [TransportInput transport, user_aggregator, LLM llm,
                           TransportOutput transport, assistant_aggregator];
               task = \<lparr>pipeline = pipeline, enable_metrics = True, enable_usage_metrics = True,
                       queued_frames = [], cancelled = False\<rparr>;
               call_metadata = [''connected_at'' \<mapsto> PyNone, ''disconnected_at'' \<mapsto> PyNone]
           in Inr \<lparr>session_transport = transport, session_llm = llm, session_task = task,
                   session_metadata = call_metadata\<rparr>))"

text \<open>
  The two event handlers. \<open>now\<close> is \<open>datetime.now(timezone.utc).isoformat()\<close> at the
  event; the handlers update the dict and the task that \<open>run_bot\<close> created. The notifier
  is an argument of \<open>on_disconnected\<close>: the program passes \<open>send_call_summary\<close>.
  The task's \<open>queue_frames\<close> and \<open>cancel\<close>, which the handlers await outside any
  \<open>try\<close>, are taken to return.
\<close>

definition on_connected ::
  "string \<Rightarrow> bot_session \<times> world \<Rightarrow> (py_exception + unit) \<times> bot_session \<times> world" where
  "on_connected now sw =
     (case sw of (s, w) \<Rightarrow>
        (let s1 = s\<lparr>session_metadata := (session_metadata s)(''connected_at'' \<mapsto> PyStr now)\<rparr>;
             w1 = write_log INFO CallConnected w;
             task = session_task s1;
             s2 = s1\<lparr>session_task := task\<lparr>queued_frames := queued_frames task @ [LLMRunFrame]\<rparr>\<rparr>
         in (Inr (), s2, w1)))"

definition on_disconnected ::
  "(call_metadata \<Rightarrow> world \<Rightarrow> (py_exception + unit) \<times> world) \<Rightarrow> string
     \<Rightarrow> bot_session \<times> world \<Rightarrow> (py_exception + unit) \<times> bot_session \<times> world" where
  "on_disconnected notifier now sw =
     (case sw of (s, w) \<Rightarrow>
        (let s1 = s\<lparr>session_metadata := (session_metadata s)(''disconnected_at'' \<mapsto> PyStr now)\<rparr>;
             w1 = write_log INFO CallDisconnected w;
             s2 = s1\<lparr>session_task := (session_task s1)\<lparr>cancelled := True\<rparr>\<rparr>
         in case notifier (session_metadata s2) w1 of
              (Inr u, w2) \<Rightarrow> (Inr (), s2, w2)
            | (Inl e, w2) \<Rightarrow> (Inr (), s2, write_log ERROR (FailedToSendCallSummary e) w2)))"


section \<open>HTTP server (server.py)\<close>

text \<open>
  The parsed webhook body: its top-level \<open>object\<close> tag and the rest of the payload, which
  the server only logs and passes on.
\<close>

record webhook_request =
  object :: string
  entry :: string

text \<open>A task handed to \<open>background_tasks.add_task(run_bot, connection, current_knowledge)\<close>.\<close>

record background_task =
  task_connection :: connection
  task_knowledge :: string

text \<open>
  What happens while the client library's \<open>handle_webhook_request\<close> is awaited: the
  library calls the connection callback for a call it has accepted, or the files of the
  knowledge directory change on disk. When the events are over the call returns, or raises.
\<close>

datatype client_event = InvokeCallback connection | FilesChanged knowledge_dir

record client_run =
  events :: "client_event list"
  raises :: "py_exception option"

type_synonym whatsapp_client = "webhook_request \<Rightarrow> client_run"

text \<open>
  The framework calls inside the callback's \<open>try\<close> blocks: the exception, if any, that
  scheduling the task raises for a connection, and the one \<open>connection.disconnect()\<close> raises.
\<close>

record framework =
  add_task_error :: "connection \<Rightarrow> py_exception option"
  disconnect_error :: "connection \<Rightarrow> py_exception option"

text \<open>
  The process: the two globals \<open>whatsapp_client\<close> and \<open>knowledge_context\<close>, the
  knowledge directory as it is on disk now, and a record of what the process has done (the
  bodies passed to the client library, the connections it tried to disconnect, its log).
\<close>

record server =
  whatsapp_client :: "whatsapp_client option"
  knowledge_context :: string
  knowledge_files :: knowledge_dir
  client_calls :: "webhook_request list"
  disconnect_calls :: "connection list"
  server_log :: "log_record list"

definition logged :: "log_record list \<Rightarrow> server \<Rightarrow> server" where
  "logged records srv = srv\<lparr>server_log := server_log srv @ records\<rparr>"

text \<open>A handler ends with a JSON reply, an \<open>HTTPException\<close>, or an exception it lets through.\<close>

datatype failure = HTTPException nat string | Unhandled py_exception

text \<open>
  \<open>lifespan\<close> up to its \<open>yield\<close>: the knowledge is loaded into the global and the client
  is created.
\<close>

definition lifespan :: "whatsapp_client \<Rightarrow> server \<Rightarrow> (py_exception + unit) \<times> server" where
  "lifespan client srv =
     (case load_knowledge (knowledge_files srv) of
        (Inl e, lg) \<Rightarrow> (Inl e, logged lg srv)
      | (Inr text, lg) \<Rightarrow>
          (Inr (),
           (logged (lg @ [(INFO, KnowledgeLoadedAtStartup (length text))])
              (srv\<lparr>knowledge_context := text\<rparr>))\<lparr>whatsapp_client := Some client\<rparr>))"

text \<open>
  \<open>connection_callback\<close>, the closure defined inside \<open>handle_webhook\<close>. Its free variables
  \<open>current_knowledge\<close> and \<open>background_tasks\<close> are its second and fourth argument here.
\<close>

definition connection_callback ::
  "framework \<Rightarrow> string \<Rightarrow> connection \<Rightarrow> background_task list \<times> server
     \<Rightarrow> background_task list \<times> server" where
  "connection_callback fw current_knowledge conn ts =
     (case ts of (background_tasks, srv) \<Rightarrow>
        (let srv1 = logged [(INFO, AutoAcceptedCall (pc_id conn))] srv in
         case add_task_error fw conn of
           None \<Rightarrow>
             (background_tasks @ [\<lparr>task_connection = conn, task_knowledge = current_knowledge\<rparr>],
              srv1)
         | Some e \<Rightarrow>
             (let srv2 = logged [(ERROR, FailedToStartBot e)] srv1 in
              (background_tasks, srv2\<lparr>disconnect_calls := disconnect_calls srv2 @ [conn]\<rparr>))))"

text \<open>The awaited library call, event by event.\<close>

fun run_events ::
  "framework \<Rightarrow> string \<Rightarrow> client_event list \<Rightarrow> background_task list \<times> server
     \<Rightarrow> background_task list \<times> server" where
  "run_events fw current_knowledge [] ts = ts"
| "run_events fw current_knowledge (InvokeCallback conn # rest) ts =
     run_events fw current_knowledge rest (connection_callback fw current_knowledge conn ts)"
| "run_events fw current_knowledge (FilesChanged d # rest) ts =
     run_events fw current_knowledge rest (fst ts, (snd ts)\<lparr>knowledge_files := d\<rparr>)"

text \<open>\<open>handle_webhook\<close>, the handler of \<open>POST /\<close>.\<close>

definition handle_webhook ::
  "framework \<Rightarrow> webhook_request \<Rightarrow> background_task list \<Rightarrow> server
     \<Rightarrow> (failure + (string \<times> string) list) \<times> background_task list \<times> server" where
  "handle_webhook fw body background_tasks srv =
     (if object body \<noteq> ''whatsapp_business_account''
      then (Inl (HTTPException 400 ''Invalid object type''), background_tasks, srv)
      else
        (let srv1 = logged [(INFO, WebhookReceived (entry body))] srv in
         case load_knowledge (knowledge_files srv1) of
           (Inl e, lg) \<Rightarrow> (Inl (Unhandled e), background_tasks, logged lg srv1)
         | (Inr current_knowledge, lg) \<Rightarrow>
             (let srv2 = logged lg srv1 in
              case whatsapp_client srv2 of
                None \<Rightarrow>
                  (let e = Exc AttributeError ''NoneType object has no attribute handle_webhook_request'' in
                   (Inl (HTTPException 500 ''Internal error''), background_tasks,
                    logged [(ERROR, WebhookProcessingError e)] srv2))
              | Some client \<Rightarrow>
                  (let run = client body;
                       srv3 = srv2\<lparr>client_calls := client_calls srv2 @ [body]\<rparr>;
                       (background_tasks', srv4) =
                          run_events fw current_knowledge (events run) (background_tasks, srv3)
                   in case raises run of
                        None \<Rightarrow> (Inr [(''status'', ''success'')], background_tasks', srv4)
                      | Some e \<Rightarrow>
                          if is_ValueError e
                          then (Inl (HTTPException 400 (str_exc e)), background_tasks',
                                logged [(WARNING, InvalidWebhook e)] srv4)
                          else (Inl (HTTPException 500 ''Internal error''), background_tasks',
                                logged [(ERROR, WebhookProcessingError e)] srv4)))))"





text \<open>
  Two directories used in the examples: one with two documents, an unreadable file and a
  file that is not markdown; one whose markdown files are all skipped.
\<close>

definition example_dir :: "dir_entry list" where
  "example_dir =
     [\<lparr>name = ''b.md'', read_text = Inr ''  Bee \<newline>''\<rparr>,
      \<lparr>name = ''notes.txt'', read_text = Inr ''ignored''\<rparr>,
      \<lparr>name = ''c.md'', read_text = Inl (Exc OSError ''denied'')\<rparr>,
      \<lparr>name = ''a.md'', read_text = Inr ''Ay''\<rparr>]"


text \<open>
  The notifier in the words of its contract: the JSON object it sends, the request that
  carries it, and the exception with which an exchange fails (the call raises, or the body
  of a response other than 200 cannot be read).
\<close>

definition summary_payload :: "call_metadata \<Rightarrow> (string \<times> py_value) list" where
  "summary_payload md =
     [(''event'', PyStr ''call_ended''),
      (''connected_at'', dict_get md ''connected_at''),
      (''disconnected_at'', dict_get md ''disconnected_at'')]"

definition summary_request :: "string \<Rightarrow> call_metadata \<Rightarrow> http_request" where
  "summary_request hook_url md =
     \<lparr>url = hook_url, json = summary_payload md, timeout_total = 10\<rparr>"

definition post_failure :: "post_outcome \<Rightarrow> py_exception option" where
  "post_failure out =
     (case out of
        PostRaises e \<Rightarrow> Some e
      | Responded status text \<Rightarrow>
          (if status = 200 then None
           else (case text of Inl e \<Rightarrow> Some e | Inr body \<Rightarrow> None)))"

text \<open>What the disconnect handler makes of the notifier's result: an exception becomes a log record.\<close>

definition absorbed :: "(py_exception + unit) \<times> world \<Rightarrow> world" where
  "absorbed rw =
     (case rw of
        (Inr u, w) \<Rightarrow> w
      | (Inl e, w) \<Rightarrow> write_log ERROR (FailedToSendCallSummary e) w)"



text \<open>
  The accepted calls of a webhook: the connections for which the library invoked the callback
  and the task was scheduled. \<open>bot_tasks k conns\<close> are bot tasks that all carry the knowledge
  string \<open>k\<close>.
\<close>

fun accepted_calls :: "framework \<Rightarrow> client_event list \<Rightarrow> connection list" where
  "accepted_calls fw [] = []"
| "accepted_calls fw (InvokeCallback conn # rest) =
     (if add_task_error fw conn = None then conn # accepted_calls fw rest
      else accepted_calls fw rest)"
| "accepted_calls fw (FilesChanged d # rest) = accepted_calls fw rest"

definition bot_tasks :: "string \<Rightarrow> connection list \<Rightarrow> background_task list" where
  "bot_tasks k conns = map (\<lambda>c. \<lparr>task_connection = c, task_knowledge = k\<rparr>) conns"

text \<open>
  A scenario used in the examples. The process starts while \<open>a.md\<close> reads \<open>old\<close>; the
  file reads \<open>new\<close> when the webhook arrives and is rewritten once more before the library
  invokes the callback for the call it accepted.
\<close>

definition example_framework :: framework where
  "example_framework = \<lparr>add_task_error = (\<lambda>c. None), disconnect_error = (\<lambda>c. None)\<rparr>"

definition example_client :: whatsapp_client where
  "example_client body =
     \<lparr>events = [FilesChanged (Some [\<lparr>name = ''a.md'', read_text = Inr ''newer''\<rparr>]),
                InvokeCallback \<lparr>pc_id = ''pc-1''\<rparr>],
      raises = None\<rparr>"

definition example_server :: server where
  "example_server =
     (snd (lifespan example_client
        \<lparr>whatsapp_client = None, knowledge_context = [],
         knowledge_files = Some [\<lparr>name = ''a.md'', read_text = Inr ''old''\<rparr>],
         client_calls = [], disconnect_calls = [], server_log = []\<rparr>))
     \<lparr>knowledge_files := Some [\<lparr>name = ''a.md'', read_text = Inr ''new''\<rparr>]\<rparr>"

definition call_webhook :: webhook_request where
  "call_webhook = \<lparr>object = ''whatsapp_business_account'', entry = ''call connect''\<rparr>"

definition failing_network :: network where
  "failing_network request = PostRaises (Exc TimeoutError ''timed out'')"

definition quiet_world :: world where
  "quiet_world = \<lparr>requests = [], log = []\<rparr>"

section \<open>Properties of the knowledge loader\<close>





text \<open>
  A block neither begins nor ends with white space: it begins with the dash of its header
  and ends with the last character of the trimmed content. So the empty line that joins
  two blocks is the only one at their border.
\<close>

lemma strip_edges:
  assumes "strip s \<noteq> []"
  shows "\<not> py_isspace (hd (strip s))" and "\<not> py_isspace (last (strip s))"
proof -
  let ?t = "dropWhile py_isspace s"
  let ?u = "dropWhile py_isspace (rev ?t)"
  have u: "?u \<noteq> []" using assms by (simp add: strip_def)
  have t: "?t \<noteq> []"
  proof
    assume "?t = []"
    then have "?u = []" by (metis rev.simps(1) dropWhile.simps(1))
    with u show False by blast
  qed
  have "last (strip s) = hd ?u" using u by (simp add: strip_def last_rev)
  moreover have "\<not> py_isspace (hd ?u)" using u by (rule hd_dropWhile)
  ultimately show "\<not> py_isspace (last (strip s))" by simp
  have ht: "\<not> py_isspace (hd ?t)" using t by (rule hd_dropWhile)
  have "hd (strip s) = last ?u" using u by (simp add: strip_def hd_rev)
  also have "\<dots> = last (rev ?t)"
  proof -
    obtain ys where "rev ?t = takeWhile py_isspace (rev ?t) @ ?u" by simp
    then show ?thesis using u by (metis last_appendR)
  qed
  also have "\<dots> = hd ?t" using t by (simp add: last_rev)
  finally show "\<not> py_isspace (hd (strip s))" using ht by simp
qed

lemma document_edges:
  assumes "strip text \<noteq> []"
  shows "hd (document nm (strip text)) = CHR ''-''"
    and "\<not> py_isspace (last (document nm (strip text)))"
  using assms strip_edges(2) [OF assms] by (simp_all add: document_def)


text \<open>The two-document example of the contract: \<open>a.md\<close> before \<open>b.md\<close>, one empty line between.\<close>

lemma load_knowledge_example:
  "fst (load_knowledge (Some example_dir)) =
     Inr ''--- A ---\<newline>Ay\<newline>\<newline>--- B ---\<newline>Bee''"
  by code_simp





section \<open>Properties of the call-summary notifier\<close>

lemma requests_write_log [simp]: "requests (write_log l m w) = requests w"
  by (simp add: write_log_def)

lemma log_write_log [simp]: "log (write_log l m w) = log w @ [(l, m)]"
  by (simp add: write_log_def)

lemma post_payload_requests:
  "requests (snd (post_payload u net p w)) =
     requests w @ [\<lparr>url = u, json = p, timeout_total = 10\<rparr>]"
  by (simp add: post_payload_def Let_def split: post_outcome.splits sum.splits)

lemma post_payload_failure:
  "post_failure (net \<lparr>url = u, json = p, timeout_total = 10\<rparr>) = Some e \<Longrightarrow>
     post_payload u net p w =
       (Inl e, w\<lparr>requests := requests w @ [\<lparr>url = u, json = p, timeout_total = 10\<rparr>]\<rparr>)"
  by (simp add: post_payload_def post_failure_def Let_def
      split: post_outcome.splits sum.splits if_splits)

lemma send_returns: "fst (send_call_summary u net md w) = Inr ()"
  by (simp add: send_call_summary_def Let_def split: prod.splits sum.splits)

lemma send_no_url: "requests (snd (send_call_summary [] net md w)) = requests w"
  by (simp add: send_call_summary_def)

lemma send_requests:
  assumes u: "u \<noteq> []"
  shows "requests (snd (send_call_summary u net md w)) = requests w @ [summary_request u md]"
proof -
  obtain r w' where P: "post_payload u net (summary_payload md) w = (r, w')"
    by (cases "post_payload u net (summary_payload md) w")
  have "requests w' = requests w @ [summary_request u md]"
    using post_payload_requests [of u net "summary_payload md" w] P
    by (simp add: summary_request_def)
  then show ?thesis using u P
    by (cases r) (simp_all add: send_call_summary_def summary_payload_def Let_def)
qed

lemma send_failure_logged:
  assumes "u \<noteq> []" and "post_failure (net (summary_request u md)) = Some e"
  shows "log (snd (send_call_summary u net md w)) = log w @ [(ERROR, FailedToSendToHook e)]"
  using assms post_payload_failure [of net u "summary_payload md" e w]
  by (simp add: send_call_summary_def summary_request_def summary_payload_def Let_def)

text \<open>
  C4. For every call metadata the notifier returns to its caller and never raises. With no
  automation URL configured it sends no request. With a URL configured, a failing exchange
  (the POST raises, or the body of a response other than 200 cannot be read) ends in one
  error record in the log, not in an exception.
\<close>

theorem send_call_summary_never_raises:
  "fst (send_call_summary u net md w) = Inr ()
   \<and> (u = [] \<longrightarrow> requests (snd (send_call_summary u net md w)) = requests w)
   \<and> (u \<noteq> [] \<longrightarrow> post_failure (net (summary_request u md)) = Some e \<longrightarrow>
        log (snd (send_call_summary u net md w)) = log w @ [(ERROR, FailedToSendToHook e)])"
  using send_returns send_no_url send_failure_logged by blast

theorem send_call_summary_never_raises_witness:
  "fst (send_call_summary ''http://n8n/hook'' failing_network Map.empty quiet_world) = Inr ()
   \<and> log (snd (send_call_summary ''http://n8n/hook'' failing_network Map.empty quiet_world))
       = [(ERROR, FailedToSendToHook (Exc TimeoutError ''timed out''))]
   \<and> fst (send_call_summary [] failing_network Map.empty quiet_world) = Inr ()
   \<and> requests (snd (send_call_summary [] failing_network Map.empty quiet_world)) = []"
proof -
  have f: "post_failure (failing_network (summary_request ''http://n8n/hook'' Map.empty))
             = Some (Exc TimeoutError ''timed out'')"
    by (simp add: post_failure_def failing_network_def)
  show ?thesis
    using f
      send_call_summary_never_raises [of "''http://n8n/hook''" failing_network Map.empty
        quiet_world "Exc TimeoutError ''timed out''"]
      send_call_summary_never_raises [of "[]" failing_network Map.empty quiet_world]
    by (simp add: quiet_world_def)
qed

text \<open>
  C6. With the automation URL configured the notifier sends exactly one request: a POST to
  that URL whose JSON body is \<open>event = "call_ended"\<close>, \<open>connected_at\<close> and
  \<open>disconnected_at\<close>, the two values read from the call metadata, with a total timeout of 10.
\<close>

theorem send_call_summary_one_post:
  "u \<noteq> [] \<Longrightarrow>
     requests (snd (send_call_summary u net md w)) =
       requests w @
         [\<lparr>url = u,
           json = [(''event'', PyStr ''call_ended''),
                   (''connected_at'', dict_get md ''connected_at''),
                   (''disconnected_at'', dict_get md ''disconnected_at'')],
           timeout_total = 10\<rparr>]"
  using send_requests [of u net md w] by (simp add: summary_request_def summary_payload_def)

theorem send_call_summary_one_post_witness:
  "requests (snd (send_call_summary ''http://n8n/hook'' failing_network
       [''connected_at'' \<mapsto> PyStr ''T1'', ''disconnected_at'' \<mapsto> PyStr ''T2''] quiet_world))
     = [\<lparr>url = ''http://n8n/hook'',
          json = [(''event'', PyStr ''call_ended''), (''connected_at'', PyStr ''T1''),
                  (''disconnected_at'', PyStr ''T2'')],
          timeout_total = 10\<rparr>]"
  using send_call_summary_one_post [of "''http://n8n/hook''" failing_network
      "[''connected_at'' \<mapsto> PyStr ''T1'', ''disconnected_at'' \<mapsto> PyStr ''T2'']" quiet_world]
  by (simp add: quiet_world_def dict_get_def)

section \<open>Properties of the bot session assembler\<close>

lemma emit_Inr [simp]: "emit s (Inr t) = Inr (s @ t)"
  by (simp add: emit_def)

lemma format_plain:
  "CHR ''{'' \<notin> set xs \<Longrightarrow> CHR ''}'' \<notin> set xs \<Longrightarrow>
     format_knowledge (xs @ ys) v = emit xs (format_knowledge ys v)"
proof (induction xs)
  case Nil
  show ?case by (simp add: emit_def split: sum.splits)
next
  case (Cons x xs)
  then show ?case by (simp add: emit_def split: sum.splits)
qed

lemma format_field: "format_knowledge (''{knowledge}'' @ ys) v = emit v (format_knowledge ys v)"
  by simp

lemma preamble_plain: "CHR ''{'' \<notin> set RULES_PREAMBLE \<and> CHR ''}'' \<notin> set RULES_PREAMBLE"
  by (simp add: RULES_PREAMBLE_def)

lemma format_rules: "format_knowledge AGENT_RULES v = Inr (RULES_PREAMBLE @ v @ ''\<newline>'')"
proof -
  have h1: "CHR ''{'' \<notin> set RULES_PREAMBLE" and h2: "CHR ''}'' \<notin> set RULES_PREAMBLE"
    using preamble_plain by blast+
  have "format_knowledge AGENT_RULES v =
          emit RULES_PREAMBLE (format_knowledge (''{knowledge}'' @ ''\<newline>'') v)"
    unfolding AGENT_RULES_def by (rule format_plain [OF h1 h2])
  also have "\<dots> = Inr (RULES_PREAMBLE @ v @ ''\<newline>'')"
    by (simp only: format_field) simp
  finally show ?thesis .
qed

text \<open>
  C5. On a disconnect event the handler writes the disconnection timestamp into the call
  metadata, cancels the pipeline task, and then calls the notifier with the metadata so
  accumulated (the earlier entries and the new timestamp). Whatever the notifier does, the
  handler returns: an exception of the notifier becomes an error record in the log.
\<close>

theorem on_disconnected_contract:
  "on_disconnected notifier now (s, w) =
     (Inr (),
      s\<lparr>session_metadata := (session_metadata s)(''disconnected_at'' \<mapsto> PyStr now),
        session_task := (session_task s)\<lparr>cancelled := True\<rparr>\<rparr>,
      absorbed (notifier ((session_metadata s)(''disconnected_at'' \<mapsto> PyStr now))
                  (write_log INFO CallDisconnected w)))"
  by (simp add: on_disconnected_def absorbed_def Let_def split: prod.splits sum.splits)

text \<open>
  A whole call with the notifier of the program: the session is set up, the caller
  connects at \<open>T1\<close> and disconnects at \<open>T2\<close>, the POST times out. The handler returns,
  the task is cancelled, and the one request sent carries both timestamps.
\<close>

lemma call_example:
  "\<exists>s0 s1 w1 s2 w2.
     run_bot None \<lparr>pc_id = ''pc-1''\<rparr> (Some ''K'') = Inr s0
     \<and> on_connected ''T1'' (s0, quiet_world) = (Inr (), s1, w1)
     \<and> on_disconnected (send_call_summary ''http://n8n/hook'' failing_network) ''T2'' (s1, w1)
         = (Inr (), s2, w2)
     \<and> cancelled (session_task s2)
     \<and> queued_frames (session_task s2) = [LLMRunFrame]
     \<and> requests w2 =
         [\<lparr>url = ''http://n8n/hook'',
           json = [(''event'', PyStr ''call_ended''), (''connected_at'', PyStr ''T1''),
                   (''disconnected_at'', PyStr ''T2'')],
           timeout_total = 10\<rparr>]
     \<and> log w2 =
         [(INFO, CallConnected), (INFO, CallDisconnected),
          (ERROR, FailedToSendToHook (Exc TimeoutError ''timed out''))]"
  by (simp add: run_bot_def format_rules LLMContextAggregatorPair_def on_connected_def
      on_disconnected_def send_call_summary_def post_payload_def failing_network_def
      quiet_world_def write_log_def dict_get_def Let_def)




section \<open>Properties of the HTTP server\<close>

lemma fst_connection_callback:
  "fst (connection_callback fw k c (bt, srv)) =
     bt @ bot_tasks k (if add_task_error fw c = None then [c] else [])"
  by (simp add: connection_callback_def bot_tasks_def Let_def split: option.splits)

lemma fst_run_events:
  "fst (run_events fw k evs ts) = fst ts @ bot_tasks k (accepted_calls fw evs)"
proof (induction evs arbitrary: ts)
  case Nil
  show ?case by (simp add: bot_tasks_def)
next
  case (Cons ev evs)
  show ?case
  proof (cases ev)
    case (InvokeCallback c)
    obtain bt srv where ts: "ts = (bt, srv)" by (cases ts)
    show ?thesis
      using Cons.IH [of "connection_callback fw k c (bt, srv)"]
      by (simp add: InvokeCallback ts fst_connection_callback bot_tasks_def)
  next
    case (FilesChanged d)
    show ?thesis
      using Cons.IH [of "(fst ts, (snd ts)\<lparr>knowledge_files := d\<rparr>)"]
      by (simp add: FilesChanged)
  qed
qed

lemma load_knowledge_returns: "\<exists>k. fst (load_knowledge d) = Inr k"
  by (cases d) (simp_all add: load_knowledge_def Let_def split: prod.splits)

lemma logged_files [simp]: "knowledge_files (logged r srv) = knowledge_files srv"
  by (simp add: logged_def)

lemma logged_client [simp]: "whatsapp_client (logged r srv) = whatsapp_client srv"
  by (simp add: logged_def)

lemma handle_webhook_tasks:
  assumes K: "fst (load_knowledge (knowledge_files srv)) = Inr k"
  shows "fst (snd (handle_webhook fw body bt srv)) =
           bt @ bot_tasks k
             (if object body = ''whatsapp_business_account''
              then (case whatsapp_client srv of
                      None \<Rightarrow> []
                    | Some client \<Rightarrow> accepted_calls fw (events (client body)))
              else [])"
proof (cases "object body = ''whatsapp_business_account''")
  case False
  then show ?thesis by (simp add: handle_webhook_def bot_tasks_def)
next
  case True
  obtain lg where L: "load_knowledge (knowledge_files srv) = (Inr k, lg)"
    using K by (cases "load_knowledge (knowledge_files srv)") simp
  show ?thesis
  proof (cases "whatsapp_client srv")
    case None
    then show ?thesis using True L
      by (simp add: handle_webhook_def Let_def bot_tasks_def)
  next
    case (Some client)
    let ?srv2 = "logged lg (logged [(INFO, WebhookReceived (entry body))] srv)"
    let ?srv3 = "?srv2\<lparr>client_calls := client_calls ?srv2 @ [body]\<rparr>"
    obtain bt' srv4 where R: "run_events fw k (events (client body)) (bt, ?srv3) = (bt', srv4)"
      by (cases "run_events fw k (events (client body)) (bt, ?srv3)")
    have B: "bt' = bt @ bot_tasks k (accepted_calls fw (events (client body)))"
      using fst_run_events [of fw k "events (client body)" "(bt, ?srv3)"] R by simp
    show ?thesis using True L Some R B
      by (simp add: handle_webhook_def Let_def split: option.splits)
  qed
qed

lemma load_old:
  "fst (load_knowledge (Some [\<lparr>name = ''a.md'', read_text = Inr ''old''\<rparr>]))
     = Inr ''--- A ---\<newline>old''"
  by code_simp

lemma load_new:
  "fst (load_knowledge (Some [\<lparr>name = ''a.md'', read_text = Inr ''new''\<rparr>]))
     = Inr ''--- A ---\<newline>new''"
  by code_simp

lemma example_server_fields:
  "knowledge_context example_server = ''--- A ---\<newline>old''"
  "whatsapp_client example_server = Some example_client"
  "fst (load_knowledge (knowledge_files example_server)) = Inr ''--- A ---\<newline>new''"
proof -
  obtain lg where L:
    "load_knowledge (Some [\<lparr>name = ''a.md'', read_text = Inr ''old''\<rparr>])
       = (Inr ''--- A ---\<newline>old'', lg)"
    using load_old
    by (cases "load_knowledge (Some [\<lparr>name = ''a.md'', read_text = Inr ''old''\<rparr>])") simp
  show "knowledge_context example_server = ''--- A ---\<newline>old''"
    using L by (simp add: example_server_def lifespan_def logged_def)
  show "whatsapp_client example_server = Some example_client"
    using L by (simp add: example_server_def lifespan_def logged_def)
  show "fst (load_knowledge (knowledge_files example_server)) = Inr ''--- A ---\<newline>new''"
    using load_new by (simp add: example_server_def)
qed

text \<open>
  C1. The loader is run once while the webhook POST is handled, on the knowledge directory
  as it is then, and it returns a string \<open>k\<close>. Every bot task the handler schedules carries
  exactly \<open>k\<close>: the tasks added are \<open>bot_tasks k conns\<close>, and for a call webhook with the
  client in place \<open>conns\<close> are the accepted calls. Neither the global \<open>knowledge_context\<close>
  set at startup nor a change of the files before the callback runs has any part in it.
\<close>

theorem handle_webhook_passes_loaded_knowledge:
  "\<exists>k conns. fst (load_knowledge (knowledge_files srv)) = Inr k
     \<and> fst (snd (handle_webhook fw body bt srv)) = bt @ bot_tasks k conns
     \<and> (object body = ''whatsapp_business_account'' \<longrightarrow> whatsapp_client srv = Some client \<longrightarrow>
          conns = accepted_calls fw (events (client body)))"
proof -
  obtain k where K: "fst (load_knowledge (knowledge_files srv)) = Inr k"
    using load_knowledge_returns by blast
  show ?thesis
    using K handle_webhook_tasks [OF K, of fw body bt] by (intro exI [of _ k]) auto
qed

theorem handle_webhook_passes_loaded_knowledge_witness:
  "knowledge_context example_server = ''--- A ---\<newline>old''
   \<and> fst (snd (handle_webhook example_framework call_webhook [] example_server)) =
       [\<lparr>task_connection = \<lparr>pc_id = ''pc-1''\<rparr>, task_knowledge = ''--- A ---\<newline>new''\<rparr>]"
proof -
  have a: "accepted_calls example_framework (events (example_client call_webhook))
             = [\<lparr>pc_id = ''pc-1''\<rparr>]"
    by (simp add: example_framework_def example_client_def)
  have b: "object call_webhook = ''whatsapp_business_account''"
    by (simp add: call_webhook_def)
  show ?thesis
    using a b example_server_fields
      handle_webhook_passes_loaded_knowledge
        [of example_server example_framework call_webhook "[]" example_client]
    by (auto simp add: bot_tasks_def)
qed

text \<open>
  C3. A webhook body whose \<open>object\<close> is not \<open>whatsapp_business_account\<close> is answered with
  HTTP 400, and nothing else happens: the client library is not called and no bot task is
  scheduled (the task list and the process are as they were).
\<close>

theorem handle_webhook_rejects_other_objects:
  "object body \<noteq> ''whatsapp_business_account'' \<Longrightarrow>
     handle_webhook fw body bt srv = (Inl (HTTPException 400 ''Invalid object type''), bt, srv)"
  by (simp add: handle_webhook_def)

theorem handle_webhook_rejects_other_objects_witness:
  "handle_webhook example_framework \<lparr>object = ''page'', entry = ''call connect''\<rparr> [] example_server
     = (Inl (HTTPException 400 ''Invalid object type''), [], example_server)"
  using handle_webhook_rejects_other_objects
      [of "\<lparr>object = ''page'', entry = ''call connect''\<rparr>" example_framework "[]" example_server]
  by simp

end
